theory Spec2Isabelle
  imports Complex_Main "HOL-Library.Sublist"
begin

section \<open>JavaScript values\<close>

text \<open>
  The upstream provider answers with JSON; \<^verbatim>\<open>r.json()\<close> turns it into a JavaScript value
  and the handlers build JavaScript objects from it. One datatype covers both. An object
  is its list of own properties in insertion order (keys distinct, as a parsed object has
  them). \<open>JUndefined\<close> never comes out of a JSON parser, but it is what reading a missing
  property gives, and a property holding it is left out when the response is serialised.
  Numbers are only tested for zero and passed through.
\<close>

datatype jsval =
    JUndefined
  | JNull
  | JBool bool
  | JNum real
  | JStr string
  | JArr "jsval list"
  | JObj "(string \<times> jsval) list"

text \<open>\<^verbatim>\<open>v == null\<close>: the test behind \<^verbatim>\<open>?.\<close> and \<^verbatim>\<open>??\<close>.\<close>

fun nullish :: "jsval \<Rightarrow> bool" where
  "nullish JUndefined = True"
| "nullish JNull = True"
| "nullish _ = False"

text \<open>
  ToBoolean, the test behind \<^verbatim>\<open>||\<close>, \<^verbatim>\<open>!\<close> and \<^verbatim>\<open>if\<close> (a parsed JSON number is never NaN).
\<close>

fun truthy :: "jsval \<Rightarrow> bool" where
  "truthy JUndefined = False"
| "truthy JNull = False"
| "truthy (JBool b) = b"
| "truthy (JNum n) = (n \<noteq> 0)"
| "truthy (JStr s) = (s \<noteq> [])"
| "truthy (JArr _) = True"
| "truthy (JObj _) = True"

text \<open>
  \<^verbatim>\<open>v.k\<close> for a \<open>v\<close> that is neither null nor undefined, and for the data keys the handlers
  read (\<^verbatim>\<open>sport_events\<close>, \<^verbatim>\<open>competitors\<close>, \<^verbatim>\<open>qualifier\<close>, \<^verbatim>\<open>name\<close>, \<^verbatim>\<open>id\<close>, ...): none of them is
  defined on a built-in prototype, so only an object can hold one.
\<close>

fun js_get :: "jsval \<Rightarrow> string \<Rightarrow> jsval" where
  "js_get (JObj kvs) k = (case map_of kvs k of Some v \<Rightarrow> v | None \<Rightarrow> JUndefined)"
| "js_get _ k = JUndefined"

text \<open>\<^verbatim>\<open>v?.k\<close>: undefined on null and undefined, never an error.\<close>

definition opt_get :: "jsval \<Rightarrow> string \<Rightarrow> jsval" where
  "opt_get v k = (if nullish v then JUndefined else js_get v k)"

text \<open>\<^verbatim>\<open>a ?? b\<close>\<close>

definition nullish_coalesce :: "jsval \<Rightarrow> jsval \<Rightarrow> jsval" where
  "nullish_coalesce a b = (if nullish a then b else a)"

section \<open>Errors\<close>

text \<open>
  Three kinds of exception reach the handlers' \<^verbatim>\<open>catch\<close>: the \<^verbatim>\<open>Error\<close> thrown on a non-success
  status, the rejection reason of \<^verbatim>\<open>fetch\<close>, \<^verbatim>\<open>r.text()\<close> or \<^verbatim>\<open>r.json()\<close>, and the \<^verbatim>\<open>TypeError\<close> the engine
  raises when a property of null or undefined is read or a value that is not a function
  is called. The handlers read only \<^verbatim>\<open>e.message\<close>.
\<close>

datatype type_error =
    CannotReadProperty jsval string
  | NotAFunction string

datatype error =
    Error string
  | Rejection string
  | TypeError type_error

section \<open>The cache and the upstream fetch\<close>

record cache_entry =
  t :: int
  d :: jsval

text \<open>
  The process-wide state: the \<^verbatim>\<open>CACHE\<close> map, and the list of URLs handed to \<^verbatim>\<open>fetch\<close> so far
  (the call log of the fetch dependency).
\<close>

record state =
  CACHE :: "string \<rightharpoonup> cache_entry"
  fetched :: "string list"

definition CACHE_TTL_MS :: int where
  "CACHE_TTL_MS = 30000"

definition SR_BASE :: string where
  "SR_BASE = ''https://api.sportradar.com''"

text \<open>
  What the network does with one \<^verbatim>\<open>fetch(url)\<close>: the promise rejects (transport failure), or
  it resolves to a response with a status, a status text, and the outcomes of reading the
  body as text and as JSON (\<open>Inl\<close> the message of the rejection).
\<close>

record reply =
  status :: nat
  statusText :: string
  text_body :: "string + string"
  json_body :: "string + jsval"

datatype fetch_result = Rejects string | Responds reply

text \<open>\<^verbatim>\<open>r.ok\<close>: the status is in the range 200 to 299.\<close>

definition ok :: "reply \<Rightarrow> bool" where
  "ok r = (200 \<le> status r \<and> status r \<le> 299)"

text \<open>A number in a template literal: its decimal digits.\<close>

definition digit :: "nat \<Rightarrow> char" where
  "digit n = ''0123456789'' ! n"

function show_nat :: "nat \<Rightarrow> string" where
  "show_nat n = (if n < 10 then [digit n] else show_nat (n div 10) @ [digit (n mod 10)])"
  by pat_completeness auto
termination
  by (relation "measure id") auto

declare show_nat.simps [simp del]

text \<open>\<^verbatim>\<open>hit && now - hit.t < CACHE_TTL_MS\<close>\<close>

definition fresh :: "int \<Rightarrow> cache_entry option \<Rightarrow> bool" where
  "fresh now hit = (case hit of None \<Rightarrow> False | Some e \<Rightarrow> now - t e < CACHE_TTL_MS)"

text \<open>
  \<^verbatim>\<open>getJsonWithCache(url)\<close>. \<open>now\<close> is what \<^verbatim>\<open>Date.now()\<close> returns on entry, \<open>net\<close> what the
  network answers. The function runs to its end without another call touching the cache
  in between.
\<close>

definition getJsonWithCache ::
  "(string \<Rightarrow> fetch_result) \<Rightarrow> int \<Rightarrow> string \<Rightarrow> state \<Rightarrow> (error + jsval) \<times> state" where
  "getJsonWithCache net now url s =
     (let hit = CACHE s url in
      if fresh now hit then (Inr (d (the hit)), s)
      else
        let s1 = s\<lparr>fetched := fetched s @ [url]\<rparr> in
        case net url of
          Rejects msg \<Rightarrow> (Inl (Rejection msg), s1)
        | Responds r \<Rightarrow>
            if \<not> ok r then
              (case text_body r of
                 Inl msg \<Rightarrow> (Inl (Rejection msg), s1)
               | Inr body \<Rightarrow>
                   (Inl (Error (show_nat (status r) @ '' '' @ statusText r @ '': '' @ body)), s1))
            else
              (case json_body r of
                 Inl msg \<Rightarrow> (Inl (Rejection msg), s1)
               | Inr data \<Rightarrow> (Inr data, s1\<lparr>CACHE := (CACHE s1)(url \<mapsto> \<lparr>t = now, d = data\<rparr>)\<rparr>)))"

section \<open>What the runtime and the environment supply\<close>

text \<open>
  Three things the handlers use are the JavaScript engine's, not the repository's:
  \<^verbatim>\<open>String.prototype.toLowerCase\<close>, \<^verbatim>\<open>encodeURIComponent\<close> on the text of a decoded request
  parameter, and the wording of the engine's \<^verbatim>\<open>TypeError\<close> messages. They are parameters of the
  model, so every theorem holds whatever they are.
\<close>

record runtime =
  toLowerCase :: "string \<Rightarrow> string"
  encodeURIComponent :: "string \<Rightarrow> string"
  typeErrorMessage :: "type_error \<Rightarrow> string"

text \<open>
  \<^verbatim>\<open>process.env\<close>: \<^verbatim>\<open>SR_API_KEY\<close> is present (the process exits otherwise), the base path has
  a default that applies when the variable is not set.
\<close>

record env =
  SR_API_KEY :: string
  SR_SOCCER_BASE_var :: "string option"

definition SR_SOCCER_BASE :: "env \<Rightarrow> string" where
  "SR_SOCCER_BASE cfg =
     (case SR_SOCCER_BASE_var cfg of None \<Rightarrow> ''/soccer/trial/v4/es'' | Some v \<Rightarrow> v)"

text \<open>\<^verbatim>\<open>e.message\<close>\<close>

definition message :: "runtime \<Rightarrow> error \<Rightarrow> string" where
  "message rt e =
     (case e of Error m \<Rightarrow> m | Rejection m \<Rightarrow> m | TypeError te \<Rightarrow> typeErrorMessage rt te)"

section \<open>Array and string methods\<close>

text \<open>
  \<^verbatim>\<open>Array.prototype.find\<close>, \<^verbatim>\<open>map\<close> and \<^verbatim>\<open>filter\<close> with a callback that may throw: the elements
  are visited in index order and the first exception ends the call.
\<close>

fun find_arr :: "(jsval \<Rightarrow> error + bool) \<Rightarrow> jsval list \<Rightarrow> error + jsval" where
  "find_arr p [] = Inr JUndefined"
| "find_arr p (x # xs) =
     (case p x of Inl e \<Rightarrow> Inl e | Inr b \<Rightarrow> if b then Inr x else find_arr p xs)"

fun map_arr :: "(jsval \<Rightarrow> error + jsval) \<Rightarrow> jsval list \<Rightarrow> error + jsval list" where
  "map_arr f [] = Inr []"
| "map_arr f (x # xs) =
     (case f x of
        Inl e \<Rightarrow> Inl e
      | Inr y \<Rightarrow> (case map_arr f xs of Inl e \<Rightarrow> Inl e | Inr ys \<Rightarrow> Inr (y # ys)))"

fun filter_arr :: "(jsval \<Rightarrow> error + bool) \<Rightarrow> jsval list \<Rightarrow> error + jsval list" where
  "filter_arr p [] = Inr []"
| "filter_arr p (x # xs) =
     (case p x of
        Inl e \<Rightarrow> Inl e
      | Inr b \<Rightarrow>
          (case filter_arr p xs of
             Inl e \<Rightarrow> Inl e
           | Inr ys \<Rightarrow> Inr (if b then x # ys else ys)))"

text \<open>
  \<^verbatim>\<open>v.find(p)\<close> and \<^verbatim>\<open>v.map(f)\<close> on a \<open>v\<close> that is neither null nor undefined: only an array
  has the method, on anything else the call is a \<^verbatim>\<open>TypeError\<close>.
\<close>

definition call_find :: "(jsval \<Rightarrow> error + bool) \<Rightarrow> jsval \<Rightarrow> error + jsval" where
  "call_find p v =
     (case v of JArr xs \<Rightarrow> find_arr p xs | _ \<Rightarrow> Inl (TypeError (NotAFunction ''find'')))"

definition call_map :: "(jsval \<Rightarrow> error + jsval) \<Rightarrow> jsval \<Rightarrow> error + jsval list" where
  "call_map f v =
     (case v of JArr xs \<Rightarrow> map_arr f xs | _ \<Rightarrow> Inl (TypeError (NotAFunction ''map'')))"

text \<open>\<^verbatim>\<open>v || []\<close>\<close>

definition or_empty :: "jsval \<Rightarrow> jsval" where
  "or_empty v = (if truthy v then v else JArr [])"

text \<open>\<^verbatim>\<open>s.includes(needle)\<close>: \<open>needle\<close> occurs in \<open>s\<close> as a contiguous run.\<close>

definition includes_str :: "string \<Rightarrow> string \<Rightarrow> bool" where
  "includes_str s needle = sublist needle s"

section \<open>The qualifier lookup\<close>

text \<open>The callback \<^verbatim>\<open>c => c.qualifier === q\<close>.\<close>

definition has_qualifier :: "string \<Rightarrow> jsval \<Rightarrow> error + bool" where
  "has_qualifier q c =
     (if nullish c then Inl (TypeError (CannotReadProperty c ''qualifier''))
      else Inr (js_get c ''qualifier'' = JStr q))"

text \<open>
  \<^verbatim>\<open>x?.competitors?.find(c => c.qualifier === q)?.name\<close>, the expression both handlers
  evaluate: on the event in the match search, on \<^verbatim>\<open>sum?.sport_event\<close> in the odds handler.
\<close>

definition competitor_name :: "string \<Rightarrow> jsval \<Rightarrow> error + jsval" where
  "competitor_name q x =
     (let cs = opt_get x ''competitors'' in
      if nullish cs then Inr JUndefined
      else
        case call_find (has_qualifier q) cs of
          Inl e \<Rightarrow> Inl e
        | Inr c \<Rightarrow> Inr (opt_get c ''name''))"

section \<open>The match-search handler\<close>

text \<open>
  \<^verbatim>\<open>req.query\<close>: each of the three parameters is absent or a string (a parameter given once,
  which is what the handler's contract covers).
\<close>

record query =
  q_date :: "string option"
  q_home :: "string option"
  q_away :: "string option"

text \<open>What the handler sends: \<^verbatim>\<open>res.status(n).json(body)\<close>; \<^verbatim>\<open>res.json(body)\<close> is status 200.\<close>

record response =
  res_status :: nat
  res_body :: jsval

definition schedulesUrl :: "runtime \<Rightarrow> env \<Rightarrow> string \<Rightarrow> string" where
  "schedulesUrl rt cfg date =
     SR_BASE @ SR_SOCCER_BASE cfg @ ''/schedules/'' @ encodeURIComponent rt date
       @ ''/schedules.json?api_key='' @ SR_API_KEY cfg"

text \<open>The callback of \<^verbatim>\<open>.map\<close> on the events: one MatchSummary per event.\<close>

definition match_summary :: "jsval \<Rightarrow> error + jsval" where
  "match_summary ev =
     (case competitor_name ''home'' ev of
        Inl e \<Rightarrow> Inl e
      | Inr hn \<Rightarrow>
          (case competitor_name ''away'' ev of
             Inl e \<Rightarrow> Inl e
           | Inr an \<Rightarrow>
               Inr (JObj
                 [(''match_id'', opt_get ev ''id''),
                  (''scheduled'', opt_get ev ''start_time''),
                  (''league'', opt_get (opt_get ev ''tournament'') ''name''),
                  (''home'', nullish_coalesce hn (JStr '''')),
                  (''away'', nullish_coalesce an (JStr ''''))])))"

text \<open>\<^verbatim>\<open>(data?.sport_events || []).map(ev => ...)\<close>\<close>

definition summaries_of :: "jsval \<Rightarrow> error + jsval list" where
  "summaries_of data = call_map match_summary (or_empty (opt_get data ''sport_events''))"

text \<open>
  The callback of \<^verbatim>\<open>.filter\<close>: \<^verbatim>\<open>m => m.home?.toLowerCase().includes(String(home).toLowerCase())\<close>,
  for the field \<^verbatim>\<open>home\<close> or \<^verbatim>\<open>away\<close>. Only a string has \<^verbatim>\<open>toLowerCase\<close>; an undefined result
  counts as false.
\<close>

definition name_includes :: "runtime \<Rightarrow> string \<Rightarrow> string \<Rightarrow> jsval \<Rightarrow> error + bool" where
  "name_includes rt field needle m =
     (if nullish m then Inl (TypeError (CannotReadProperty m field))
      else
        let v = js_get m field in
        if nullish v then Inr False
        else
          case v of
            JStr name \<Rightarrow> Inr (includes_str (toLowerCase rt name) (toLowerCase rt needle))
          | _ \<Rightarrow> Inl (TypeError (NotAFunction ''toLowerCase'')))"

text \<open>\<^verbatim>\<open>if (home) matches = matches.filter(...)\<close>: an absent or empty parameter is falsy.\<close>

definition apply_filter ::
  "runtime \<Rightarrow> string \<Rightarrow> string option \<Rightarrow> jsval list \<Rightarrow> error + jsval list" where
  "apply_filter rt field param matches =
     (case param of
        None \<Rightarrow> Inr matches
      | Some needle \<Rightarrow>
          if needle \<noteq> [] then filter_arr (name_includes rt field needle) matches
          else Inr matches)"

definition search_body :: "runtime \<Rightarrow> string \<Rightarrow> query \<Rightarrow> jsval \<Rightarrow> error + jsval" where
  "search_body rt date q data =
     (case summaries_of data of
        Inl e \<Rightarrow> Inl e
      | Inr ms \<Rightarrow>
          (case apply_filter rt ''home'' (q_home q) ms of
             Inl e \<Rightarrow> Inl e
           | Inr ms1 \<Rightarrow>
               (case apply_filter rt ''away'' (q_away q) ms1 of
                  Inl e \<Rightarrow> Inl e
                | Inr ms2 \<Rightarrow>
                    Inr (JObj
                      [(''date'', JStr date),
                       (''count'', JNum (real (length ms2))),
                       (''matches'', JArr ms2)]))))"

text \<open>\<^verbatim>\<open>catch (e) { res.status(500).json({ error: e.message }); }\<close>\<close>

definition server_error :: "runtime \<Rightarrow> error \<Rightarrow> response" where
  "server_error rt e = \<lparr>res_status = 500, res_body = JObj [(''error'', JStr (message rt e))]\<rparr>"

definition bad_request :: response where
  "bad_request = \<lparr>res_status = 400, res_body = JObj [(''error'', JStr ''Falta ?date=YYYY-MM-DD'')]\<rparr>"

text \<open>\<^verbatim>\<open>app.get("/search/matches", ...)\<close>, after the access gate has let the request through.\<close>

definition search_matches ::
  "runtime \<Rightarrow> env \<Rightarrow> (string \<Rightarrow> fetch_result) \<Rightarrow> int \<Rightarrow> query \<Rightarrow> state \<Rightarrow> response \<times> state" where
  "search_matches rt cfg net now q s =
     (case q_date q of
        None \<Rightarrow> (bad_request, s)
      | Some date \<Rightarrow>
          if date = [] then (bad_request, s)
          else
            (let url = schedulesUrl rt cfg date;
                 (r, s') = getJsonWithCache net now url s
             in
               (case r of
                  Inl e \<Rightarrow> (server_error rt e, s')
                | Inr data \<Rightarrow>
                    (case search_body rt date q data of
                       Inl e \<Rightarrow> (server_error rt e, s')
                     | Inr b \<Rightarrow> (\<lparr>res_status = 200, res_body = b\<rparr>, s')))))"

section \<open>The odds handler\<close>

definition probUrl :: "runtime \<Rightarrow> env \<Rightarrow> string \<Rightarrow> string" where
  "probUrl rt cfg mid =
     SR_BASE @ SR_SOCCER_BASE cfg @ ''/matches/'' @ encodeURIComponent rt mid
       @ ''/probabilities.json?api_key='' @ SR_API_KEY cfg"

definition sumUrl :: "runtime \<Rightarrow> env \<Rightarrow> string \<Rightarrow> string" where
  "sumUrl rt cfg mid =
     SR_BASE @ SR_SOCCER_BASE cfg @ ''/matches/'' @ encodeURIComponent rt mid
       @ ''/summary.json?api_key='' @ SR_API_KEY cfg"

text \<open>
  \<^verbatim>\<open>Promise.all\<close> of two promises: both values when both fulfil, otherwise the reason of the
  promise that rejects first. When both reject, which one is first is the scheduler's
  choice, the argument \<open>second_first\<close>.
\<close>

definition Promise_all :: "bool \<Rightarrow> error + 'a \<Rightarrow> error + 'b \<Rightarrow> error + ('a \<times> 'b)" where
  "Promise_all second_first p q =
     (case p of
        Inr a \<Rightarrow> (case q of Inr b \<Rightarrow> Inr (a, b) | Inl e \<Rightarrow> Inl e)
      | Inl e1 \<Rightarrow> (case q of Inr b \<Rightarrow> Inl e1 | Inl e2 \<Rightarrow> Inl (if second_first then e2 else e1)))"

text \<open>The callbacks of the two \<^verbatim>\<open>.map\<close> calls on markets and outcomes.\<close>

definition outcome_entry :: "jsval \<Rightarrow> error + jsval" where
  "outcome_entry oc =
     (if nullish oc then Inl (TypeError (CannotReadProperty oc ''name''))
      else Inr (JObj [(''label'', js_get oc ''name''), (''probability'', js_get oc ''probability'')]))"

definition market_entry :: "jsval \<Rightarrow> error + jsval" where
  "market_entry m =
     (if nullish m then Inl (TypeError (CannotReadProperty m ''name''))
      else
        case call_map outcome_entry (or_empty (js_get m ''outcomes'')) of
          Inl e \<Rightarrow> Inl e
        | Inr ocs \<Rightarrow> Inr (JObj [(''key'', js_get m ''name''), (''outcomes'', JArr ocs)]))"

text \<open>\<^verbatim>\<open>(prob?.probabilities?.markets || []).map(m => ...)\<close>\<close>

definition markets_of :: "jsval \<Rightarrow> error + jsval list" where
  "markets_of prob =
     call_map market_entry (or_empty (opt_get (opt_get prob ''probabilities'') ''markets''))"

text \<open>The handler's body after both payloads have arrived.\<close>

definition odds_body :: "string \<Rightarrow> jsval \<Rightarrow> jsval \<Rightarrow> error + jsval" where
  "odds_body mid prob summary =
     (case competitor_name ''home'' (opt_get summary ''sport_event'') of
        Inl e \<Rightarrow> Inl e
      | Inr hn \<Rightarrow>
          (case competitor_name ''away'' (opt_get summary ''sport_event'') of
             Inl e \<Rightarrow> Inl e
           | Inr an \<Rightarrow>
               (let scheduled = opt_get (opt_get summary ''sport_event'') ''start_time'' in
                (case markets_of prob of
                   Inl e \<Rightarrow> Inl e
                 | Inr ms \<Rightarrow>
                     Inr (JObj
                       [(''match_id'', JStr mid),
                        (''scheduled'', scheduled),
                        (''home'', hn),
                        (''away'', an),
                        (''markets'', JArr ms)])))))"

text \<open>
  \<^verbatim>\<open>app.get("/odds/match/:id", ...)\<close>. Both calls of \<^verbatim>\<open>getJsonWithCache\<close> start before either is
  awaited: each reads the clock (\<open>now_p\<close>, \<open>now_s\<close>) and the cache, and starts its fetch, before
  any payload is stored. Their URLs differ, so neither reads or writes the other's cache
  entry, and threading the state through the first call and then the second gives the
  same results and the same final state as any interleaving of the two. The state
  returned is the one reached when both calls have settled, also when the response was
  sent at the first rejection.
\<close>

definition odds_match ::
  "runtime \<Rightarrow> env \<Rightarrow> (string \<Rightarrow> fetch_result) \<Rightarrow> bool \<Rightarrow> int \<Rightarrow> int \<Rightarrow> string \<Rightarrow> state
     \<Rightarrow> response \<times> state" where
  "odds_match rt cfg net second_first now_p now_s mid s =
     (let (rp, s1) = getJsonWithCache net now_p (probUrl rt cfg mid) s;
          (rs, s2) = getJsonWithCache net now_s (sumUrl rt cfg mid) s1
      in
        (case Promise_all second_first rp rs of
           Inl e \<Rightarrow> (server_error rt e, s2)
         | Inr (prob, summary) \<Rightarrow>
             (case odds_body mid prob summary of
                Inl e \<Rightarrow> (server_error rt e, s2)
              | Inr b \<Rightarrow> (\<lparr>res_status = 200, res_body = b\<rparr>, s2))))"

section \<open>The shape of upstream data, and the results the specification names\<close>

text \<open>
  The list behind \<^verbatim>\<open>v || []\<close> when \<open>v\<close> is missing, falsy or an array; and the condition
  under which mapping over it calls no method on a non-array and reads no property of a
  null entry: \<open>v\<close> is falsy, or an array none of whose entries is null or undefined.
\<close>

definition list_of :: "jsval \<Rightarrow> jsval list" where
  "list_of v = (case v of JArr xs \<Rightarrow> xs | _ \<Rightarrow> [])"


text \<open>
  The competitors of an event (or of a summary's \<^verbatim>\<open>sport_event\<close>): the list is absent or
  null, or it is an array with no null entry.
\<close>

definition competitors_of :: "jsval \<Rightarrow> jsval list" where
  "competitors_of x = list_of (opt_get x ''competitors'')"

definition competitors_ok :: "jsval \<Rightarrow> bool" where
  "competitors_ok x =
     (case opt_get x ''competitors'' of
        JArr cs \<Rightarrow> list_all (\<lambda>c. \<not> nullish c) cs
      | v \<Rightarrow> nullish v)"

text \<open>The competitor entry whose qualifier equals \<open>q\<close>: the first one, if there is any.\<close>

definition competitor_with :: "string \<Rightarrow> jsval \<Rightarrow> jsval option" where
  "competitor_with q x = List.find (\<lambda>c. js_get c ''qualifier'' = JStr q) (competitors_of x)"

text \<open>
  The team name of a MatchSummary in the specification's words: the name of that entry,
  the empty string when there is no such entry (or the entry has no name).
\<close>

definition team_name :: "string \<Rightarrow> jsval \<Rightarrow> jsval" where
  "team_name q x =
     (case competitor_with q x of
        None \<Rightarrow> JStr ''''
      | Some c \<Rightarrow> nullish_coalesce (js_get c ''name'') (JStr ''''))"

text \<open>
  The events of a schedule: the list is missing (falsy) or an array, and every event in it
  has competitors of the shape above (an event that is null has none, which is fine).
\<close>

definition events_ok :: "jsval \<Rightarrow> bool" where
  "events_ok data =
     (case or_empty (opt_get data ''sport_events'') of
        JArr evs \<Rightarrow> list_all competitors_ok evs
      | _ \<Rightarrow> False)"

text \<open>
  The filter in the specification's words: a name contains the filter text as a substring
  once both are lower-cased; a summary passes a filter that is not given (absent or
  empty), and passes a given one when its name contains the filter text.
\<close>

definition contains_ci :: "runtime \<Rightarrow> string \<Rightarrow> jsval \<Rightarrow> bool" where
  "contains_ci rt needle v =
     (case v of
        JStr name \<Rightarrow> sublist (toLowerCase rt needle) (toLowerCase rt name)
      | _ \<Rightarrow> False)"

definition passes :: "runtime \<Rightarrow> string option \<Rightarrow> jsval \<Rightarrow> bool" where
  "passes rt param v =
     (case param of
        None \<Rightarrow> True
      | Some needle \<Rightarrow> needle = [] \<or> contains_ci rt needle v)"

text \<open>A summary whose two team names are strings.\<close>

definition is_str :: "jsval \<Rightarrow> bool" where
  "is_str v = (case v of JStr _ \<Rightarrow> True | _ \<Rightarrow> False)"

definition has_names :: "jsval \<Rightarrow> bool" where
  "has_names m = (is_str (js_get m ''home'') \<and> is_str (js_get m ''away''))"


text \<open>
  An upstream call fails: the fetch rejects, the status is not a success, or the body does
  not decode.
\<close>

definition fetch_fails :: "fetch_result \<Rightarrow> bool" where
  "fetch_fails fr =
     (case fr of
        Rejects msg \<Rightarrow> True
      | Responds r \<Rightarrow> if ok r then isl (json_body r) else True)"

section \<open>A runtime and an environment for the examples\<close>

text \<open>
  \<^verbatim>\<open>toLowerCase\<close> as it acts on ASCII text, \<^verbatim>\<open>encodeURIComponent\<close> as it acts on
  text made of letters, digits and hyphens (it leaves them alone), and the environment with
  the base path left at its default.
\<close>

definition ascii_toLowerCase :: "string \<Rightarrow> string" where
  "ascii_toLowerCase =
     map (\<lambda>c. case map_of (zip ''ABCDEFGHIJKLMNOPQRSTUVWXYZ'' ''abcdefghijklmnopqrstuvwxyz'') c of
                 None \<Rightarrow> c
               | Some l \<Rightarrow> l)"

definition sample_rt :: runtime where
  "sample_rt =
     \<lparr>toLowerCase = ascii_toLowerCase,
      encodeURIComponent = (\<lambda>x. x),
      typeErrorMessage = (\<lambda>te. ''TypeError'')\<rparr>"

definition sample_env :: env where
  "sample_env = \<lparr>SR_API_KEY = ''k'', SR_SOCCER_BASE_var = None\<rparr>"

definition empty_state :: state where
  "empty_state = \<lparr>CACHE = Map.empty, fetched = []\<rparr>"

text \<open>An upstream that answers every URL with status 200 and the given payload.\<close>

definition serves :: "jsval \<Rightarrow> string \<Rightarrow> fetch_result" where
  "serves v url =
     Responds \<lparr>status = 200, statusText = ''OK'', text_body = Inr '''', json_body = Inr v\<rparr>"

text \<open>
  An upstream for the odds handler of match \<^verbatim>\<open>m1\<close>: one payload for the probabilities URL,
  another for every other URL; and one whose probabilities URL is unreachable.
\<close>

definition serves_odds :: "jsval \<Rightarrow> jsval \<Rightarrow> string \<Rightarrow> fetch_result" where
  "serves_odds prob summary url =
     (if url = probUrl sample_rt sample_env ''m1'' then serves prob url else serves summary url)"

definition prob_down :: "jsval \<Rightarrow> string \<Rightarrow> fetch_result" where
  "prob_down summary url =
     (if url = probUrl sample_rt sample_env ''m1'' then Rejects ''fetch failed''
      else serves summary url)"

text \<open>
  Payloads: a schedule with two events, a schedule whose only event names its home team
  by a number, an event and a summary with no home competitor, and probabilities with two
  markets, the second without outcomes.
\<close>

definition sample_schedule :: jsval where
  "sample_schedule =
     JObj [(''sport_events'', JArr
       [JObj [(''id'', JStr ''e1''),
              (''competitors'', JArr
                 [JObj [(''qualifier'', JStr ''home''), (''name'', JStr ''Real Madrid'')],
                  JObj [(''qualifier'', JStr ''away''), (''name'', JStr ''Barcelona'')]])],
        JObj [(''id'', JStr ''e2''),
              (''competitors'', JArr
                 [JObj [(''qualifier'', JStr ''home''), (''name'', JStr ''Sevilla'')],
                  JObj [(''qualifier'', JStr ''away''), (''name'', JStr ''Betis'')]])]])]"

definition numbered_schedule :: jsval where
  "numbered_schedule =
     JObj [(''sport_events'', JArr
       [JObj [(''id'', JStr ''e7''),
              (''competitors'', JArr
                 [JObj [(''qualifier'', JStr ''home''), (''name'', JNum 7)],
                  JObj [(''qualifier'', JStr ''away''), (''name'', JStr ''Betis'')]])]])]"

definition away_only_event :: jsval where
  "away_only_event =
     JObj [(''id'', JStr ''e3''),
           (''competitors'', JArr
              [JObj [(''qualifier'', JStr ''away''), (''name'', JStr ''Betis'')]])]"

text \<open>A schedule whose second event has no home competitor and whose third event is null.\<close>

definition partial_schedule :: jsval where
  "partial_schedule =
     JObj [(''sport_events'', JArr
       [JObj [(''id'', JStr ''e1''),
              (''start_time'', JStr ''2024-05-01T19:00:00+00:00''),
              (''tournament'', JObj [(''name'', JStr ''LaLiga'')]),
              (''competitors'', JArr
                 [JObj [(''qualifier'', JStr ''home''), (''name'', JStr ''Real Madrid'')],
                  JObj [(''qualifier'', JStr ''away''), (''name'', JStr ''Barcelona'')]])],
        away_only_event,
        JNull])]"

definition sample_summary :: jsval where
  "sample_summary =
     JObj [(''sport_event'', JObj
       [(''start_time'', JStr ''2024-05-01T19:00:00+00:00''),
        (''competitors'', JArr
           [JObj [(''qualifier'', JStr ''away''), (''name'', JStr ''Betis'')]])])]"

definition sample_probabilities :: jsval where
  "sample_probabilities =
     JObj [(''probabilities'', JObj
       [(''markets'', JArr
          [JObj [(''name'', JStr ''3way''),
                 (''outcomes'', JArr
                    [JObj [(''name'', JStr ''home_team_winner''), (''probability'', JNum 45.3)],
                     JObj [(''name'', JStr ''draw''), (''probability'', JNum 27.1)]])],
           JObj [(''name'', JStr ''empty'')]])])]"

section \<open>The cache-fetch unit\<close>

lemma fresh_Some: "fresh now (Some e) = (now - t e < CACHE_TTL_MS)"
  by (simp add: fresh_def)

lemma fresh_None: "fresh now None = False"
  by (simp add: fresh_def)

lemma getJsonWithCache_stale_failure:
  assumes "\<not> fresh now (CACHE s url)" and "fetch_fails (net url)"
  shows "\<exists>err. getJsonWithCache net now url s = (Inl err, s\<lparr>fetched := fetched s @ [url]\<rparr>)"
  using assms
  by (auto simp: getJsonWithCache_def Let_def fetch_fails_def isl_def
           split: fetch_result.splits sum.splits if_splits)

lemma getJsonWithCache_stale_success:
  assumes "\<not> fresh now (CACHE s url)" and "net url = Responds r" and "ok r"
      and "json_body r = Inr data"
  shows "getJsonWithCache net now url s =
           (Inr data, s\<lparr>fetched := fetched s @ [url],
                        CACHE := (CACHE s)(url \<mapsto> \<lparr>t = now, d = data\<rparr>)\<rparr>)"
  using assms by (simp add: getJsonWithCache_def Let_def)

text \<open>
  A call reads and writes the cache at its own URL only, so the outcome of a call does
  not depend on what a call for another URL has stored: the two calls of the odds handler
  can be taken one after the other.
\<close>

lemma getJsonWithCache_frame:
  "u \<noteq> url \<Longrightarrow> CACHE (snd (getJsonWithCache net now url s)) u = CACHE s u"
  by (simp add: getJsonWithCache_def Let_def split: fetch_result.splits sum.splits)

lemma getJsonWithCache_result_depends:
  "CACHE s1 url = CACHE s url \<Longrightarrow>
     fst (getJsonWithCache net now url s1) = fst (getJsonWithCache net now url s)"
  by (simp add: getJsonWithCache_def Let_def split: fetch_result.splits sum.splits)

lemma probUrl_neq_sumUrl: "probUrl rt cfg mid \<noteq> sumUrl rt cfg mid"
  by (simp add: probUrl_def sumUrl_def)

lemma odds_calls_independent:
  "fst (getJsonWithCache net now_s (sumUrl rt cfg mid)
          (snd (getJsonWithCache net now_p (probUrl rt cfg mid) s)))
     = fst (getJsonWithCache net now_s (sumUrl rt cfg mid) s)"
  by (rule getJsonWithCache_result_depends)
     (simp add: getJsonWithCache_frame probUrl_neq_sumUrl [symmetric])

text \<open>
  C1. When the cache holds an entry for the URL whose age \<open>now - t\<close> is below 30000 ms, the
  call returns the entry's payload, and the state is the one it started from: the call
  log of \<^verbatim>\<open>fetch\<close> and the cache map are both untouched.
\<close>

theorem getJsonWithCache_hit:
  assumes "CACHE s url = Some e" and "now - t e < 30000"
  shows "getJsonWithCache net now url s = (Inr (d e), s)"
  using assms by (simp add: getJsonWithCache_def fresh_Some CACHE_TTL_MS_def)

theorem getJsonWithCache_hit_witness:
  "getJsonWithCache (\<lambda>u. Rejects ''unreachable'') 29999 ''u''
     \<lparr>CACHE = [''u'' \<mapsto> \<lparr>t = 0, d = JStr ''payload''\<rparr>], fetched = []\<rparr>
   = (Inr (JStr ''payload''),
      \<lparr>CACHE = [''u'' \<mapsto> \<lparr>t = 0, d = JStr ''payload''\<rparr>], fetched = []\<rparr>)"
  using getJsonWithCache_hit
    [of "\<lparr>CACHE = [''u'' \<mapsto> \<lparr>t = 0, d = JStr ''payload''\<rparr>], fetched = []\<rparr>" "''u''"
        "\<lparr>t = 0, d = JStr ''payload''\<rparr>" 29999 "\<lambda>u. Rejects ''unreachable''"]
  by simp

text \<open>
  C2. When the cache has no entry for the URL, or one that is at least 30000 ms old, and
  the upstream call fails (the fetch rejects, the status is not a success, or the body
  does not decode), the call ends in an error, not in a payload; the fetch is in the call
  log and the cache map is exactly the one the call started from, so neither the failure
  nor anything else has been stored and the stale entry has not been returned.
\<close>

theorem getJsonWithCache_failure:
  assumes "CACHE s url = None \<or> (\<exists>e. CACHE s url = Some e \<and> 30000 \<le> now - t e)"
      and "fetch_fails (net url)"
  shows "(\<exists>err. getJsonWithCache net now url s = (Inl err, s\<lparr>fetched := fetched s @ [url]\<rparr>))
         \<and> CACHE (snd (getJsonWithCache net now url s)) = CACHE s"
proof -
  from assms(1) have stale: "\<not> fresh now (CACHE s url)"
    by (auto simp: fresh_def CACHE_TTL_MS_def)
  from getJsonWithCache_stale_failure [of now s url net, OF stale assms(2)]
  obtain err where
    "getJsonWithCache net now url s = (Inl err, s\<lparr>fetched := fetched s @ [url]\<rparr>)" ..
  then show ?thesis by simp
qed

theorem getJsonWithCache_failure_witness:
  "getJsonWithCache
     (\<lambda>u. Responds \<lparr>status = 503, statusText = ''Service Unavailable'',
                     text_body = Inr ''down'', json_body = Inl ''Unexpected token''\<rparr>)
     30000 ''u'' \<lparr>CACHE = [''u'' \<mapsto> \<lparr>t = 0, d = JStr ''old''\<rparr>], fetched = []\<rparr>
   = (Inl (Error ''503 Service Unavailable: down''),
      \<lparr>CACHE = [''u'' \<mapsto> \<lparr>t = 0, d = JStr ''old''\<rparr>], fetched = [''u'']\<rparr>)"
  using getJsonWithCache_failure
    [of "\<lparr>CACHE = [''u'' \<mapsto> \<lparr>t = 0, d = JStr ''old''\<rparr>], fetched = []\<rparr>" "''u''" 30000
        "\<lambda>u. Responds \<lparr>status = 503, statusText = ''Service Unavailable'',
                        text_body = Inr ''down'', json_body = Inl ''Unexpected token''\<rparr>"]
  by (simp add: getJsonWithCache_def fresh_def CACHE_TTL_MS_def fetch_fails_def ok_def
        show_nat.simps digit_def)

text \<open>
  C9. On a successful fetch after a miss or an expired entry, the entry stored carries
  \<open>now\<close>, the clock value read at lookup, before the fetch. So if the fetch took \<open>dur\<close> ms
  (the call returns at \<open>now + dur\<close>), a call made \<open>rest\<close> ms after that return is served
  from the cache, with the state untouched, exactly when \<open>rest < 30000 - dur\<close>: what is
  left of the entry's freshness at return is the TTL minus the duration of the fetch.
\<close>

theorem getJsonWithCache_timestamp:
  assumes "\<not> fresh now (CACHE s url)" and "net url = Responds r" and "ok r"
      and "json_body r = Inr data"
  shows "fst (getJsonWithCache net now url s) = Inr data
       \<and> CACHE (snd (getJsonWithCache net now url s)) url = Some \<lparr>t = now, d = data\<rparr>
       \<and> ((getJsonWithCache net' (now + dur + rest) url (snd (getJsonWithCache net now url s))
             = (Inr data, snd (getJsonWithCache net now url s)))
            = (rest < 30000 - dur))"
proof -
  let ?s' = "s\<lparr>fetched := fetched s @ [url], CACHE := (CACHE s)(url \<mapsto> \<lparr>t = now, d = data\<rparr>)\<rparr>"
  have first: "getJsonWithCache net now url s = (Inr data, ?s')"
    by (rule getJsonWithCache_stale_success [of now s url net r data, OF assms])
  have again: "(getJsonWithCache net' (now + dur + rest) url ?s' = (Inr data, ?s'))
                 = (rest < 30000 - dur)"
  proof (cases "rest < 30000 - dur")
    case True
    then have "getJsonWithCache net' (now + dur + rest) url ?s' = (Inr data, ?s')"
      by (simp add: getJsonWithCache_def fresh_def CACHE_TTL_MS_def)
    with True show ?thesis by simp
  next
    case False
    then have stale: "\<not> fresh (now + dur + rest) (CACHE ?s' url)"
      by (simp add: fresh_def CACHE_TTL_MS_def)
    have "fetched (snd (getJsonWithCache net' (now + dur + rest) url ?s'))
            = fetched ?s' @ [url]"
      using stale
      by (simp add: getJsonWithCache_def Let_def split: fetch_result.splits sum.splits)
    then have "snd (getJsonWithCache net' (now + dur + rest) url ?s') \<noteq> ?s'"
      by (metis append_self_conv not_Cons_self2)
    then have "getJsonWithCache net' (now + dur + rest) url ?s' \<noteq> (Inr data, ?s')"
      by (metis snd_conv)
    with False show ?thesis by simp
  qed
  from first again show ?thesis by simp
qed

theorem getJsonWithCache_timestamp_witness:
  "CACHE (snd (getJsonWithCache (serves (JStr ''fresh'')) 1000 ''u'' empty_state)) ''u''
     = Some \<lparr>t = 1000, d = JStr ''fresh''\<rparr>
   \<and> getJsonWithCache (\<lambda>u. Rejects ''unreachable'') (1000 + 400 + 29599) ''u''
         (snd (getJsonWithCache (serves (JStr ''fresh'')) 1000 ''u'' empty_state))
       = (Inr (JStr ''fresh''), snd (getJsonWithCache (serves (JStr ''fresh'')) 1000 ''u'' empty_state))
   \<and> getJsonWithCache (\<lambda>u. Rejects ''unreachable'') (1000 + 400 + 29600) ''u''
         (snd (getJsonWithCache (serves (JStr ''fresh'')) 1000 ''u'' empty_state))
       \<noteq> (Inr (JStr ''fresh''), snd (getJsonWithCache (serves (JStr ''fresh'')) 1000 ''u'' empty_state))"
  using
    getJsonWithCache_timestamp
      [of 1000 empty_state "''u''" "serves (JStr ''fresh'')"
          "\<lparr>status = 200, statusText = ''OK'', text_body = Inr '''', json_body = Inr (JStr ''fresh'')\<rparr>"
          "JStr ''fresh''" "\<lambda>u. Rejects ''unreachable''" 400 29599]
    getJsonWithCache_timestamp
      [of 1000 empty_state "''u''" "serves (JStr ''fresh'')"
          "\<lparr>status = 200, statusText = ''OK'', text_body = Inr '''', json_body = Inr (JStr ''fresh'')\<rparr>"
          "JStr ''fresh''" "\<lambda>u. Rejects ''unreachable''" 400 29600]
  by (simp add: fresh_def empty_state_def serves_def ok_def)

section \<open>Array methods whose callback does not throw\<close>

lemma find_arr_total:
  assumes "\<And>x. x \<in> set xs \<Longrightarrow> p x = Inr (P x)"
  shows "find_arr p xs = Inr (case List.find P xs of None \<Rightarrow> JUndefined | Some x \<Rightarrow> x)"
  using assms by (induction xs) simp_all

lemma map_arr_total:
  assumes "\<And>x. x \<in> set xs \<Longrightarrow> f x = Inr (g x)"
  shows "map_arr f xs = Inr (map g xs)"
  using assms by (induction xs) simp_all

lemma filter_arr_total:
  assumes "\<And>x. x \<in> set xs \<Longrightarrow> p x = Inr (P x)"
  shows "filter_arr p xs = Inr (filter P xs)"
  using assms by (induction xs) simp_all

lemma find_in_set: "List.find P xs = Some x \<Longrightarrow> x \<in> set xs"
  by (induction xs) (auto split: if_splits)

section \<open>The qualifier lookup\<close>

lemma has_qualifier_total:
  "\<not> nullish c \<Longrightarrow> has_qualifier q c = Inr (js_get c ''qualifier'' = JStr q)"
  by (simp add: has_qualifier_def)

lemma competitor_name_array:
  assumes "opt_get x ''competitors'' = JArr cs" and "list_all (\<lambda>c. \<not> nullish c) cs"
  shows "competitor_name q x =
           Inr (case competitor_with q x of None \<Rightarrow> JUndefined | Some c \<Rightarrow> js_get c ''name'')"
proof -
  let ?P = "\<lambda>c. js_get c ''qualifier'' = JStr q"
  from assms(2) have total: "\<And>c. c \<in> set cs \<Longrightarrow> has_qualifier q c = Inr (?P c)"
    by (simp add: list_all_iff has_qualifier_total)
  have found: "find_arr (has_qualifier q) cs
                 = Inr (case List.find ?P cs of None \<Rightarrow> JUndefined | Some c \<Rightarrow> c)"
    by (rule find_arr_total) (rule total)
  show ?thesis
  proof (cases "List.find ?P cs")
    case None
    with found assms(1) show ?thesis
      by (simp add: competitor_name_def call_find_def competitor_with_def competitors_of_def
            list_of_def opt_get_def)
  next
    case (Some c)
    then have "c \<in> set cs" by (rule find_in_set)
    with assms(2) have "\<not> nullish c" by (simp add: list_all_iff)
    with Some found assms(1) show ?thesis
      by (simp add: competitor_name_def call_find_def competitor_with_def competitors_of_def
            list_of_def opt_get_def)
  qed
qed

lemma competitor_name_absent:
  assumes "nullish (opt_get x ''competitors'')"
  shows "competitor_name q x = Inr JUndefined" and "competitor_with q x = None"
  using assms
  by (cases "opt_get x ''competitors''";
      simp add: competitor_name_def competitor_with_def competitors_of_def list_of_def)+

lemma competitor_name_ok:
  assumes "competitors_ok x"
  shows "competitor_name q x =
           Inr (case competitor_with q x of None \<Rightarrow> JUndefined | Some c \<Rightarrow> js_get c ''name'')"
proof (cases "opt_get x ''competitors''")
  case (JArr cs)
  with assms have "list_all (\<lambda>c. \<not> nullish c) cs" by (simp add: competitors_ok_def)
  with JArr show ?thesis by (rule competitor_name_array)
qed (use assms in \<open>simp_all add: competitors_ok_def competitor_name_absent\<close>)

lemma match_summary_total:
  assumes "competitors_ok ev"
  shows "match_summary ev =
           Inr (JObj
             [(''match_id'', opt_get ev ''id''),
              (''scheduled'', opt_get ev ''start_time''),
              (''league'', opt_get (opt_get ev ''tournament'') ''name''),
              (''home'', team_name ''home'' ev),
              (''away'', team_name ''away'' ev)])"
proof -
  have "nullish_coalesce
          (case competitor_with q ev of None \<Rightarrow> JUndefined | Some c \<Rightarrow> js_get c ''name'')
          (JStr '''')
        = team_name q ev" for q
    by (simp add: team_name_def nullish_coalesce_def split: option.splits)
  then show ?thesis
    by (simp add: match_summary_def competitor_name_ok [OF assms])
qed

section \<open>The odds handler\<close>

lemmas url_defs = probUrl_def sumUrl_def schedulesUrl_def SR_BASE_def SR_SOCCER_BASE_def

lemmas fixture_defs =
  sample_rt_def sample_env_def empty_state_def serves_def serves_odds_def prob_down_def
  sample_schedule_def numbered_schedule_def away_only_event_def partial_schedule_def
  sample_summary_def
  sample_probabilities_def
  ascii_toLowerCase_def

lemmas handler_defs =
  getJsonWithCache_def fresh_def ok_def CACHE_TTL_MS_def message_def server_error_def
  bad_request_def search_matches_def search_body_def summaries_of_def match_summary_def
  apply_filter_def name_includes_def includes_str_def odds_match_def odds_body_def
  Promise_all_def markets_of_def market_entry_def outcome_entry_def competitor_name_def
  has_qualifier_def call_find_def call_map_def or_empty_def opt_get_def nullish_coalesce_def

lemma odds_body_names:
  assumes "odds_body mid prob summary = Inr b"
  shows "competitor_name ''home'' (opt_get summary ''sport_event'') = Inr (js_get b ''home'')"
    and "competitor_name ''away'' (opt_get summary ''sport_event'') = Inr (js_get b ''away'')"
    and "markets_of prob = Inr (list_of (js_get b ''markets''))"
  using assms by (auto simp: odds_body_def list_of_def split: sum.splits)

text \<open>
  C3, as the code has it. In a summary whose competitors list is absent, null, or an array
  with no null entry, and where no entry has the qualifier "home" (respectively "away"),
  the lookup of the odds handler raises no error and gives undefined, and a response
  body built from that summary carries undefined in its \<^verbatim>\<open>home\<close> (respectively \<^verbatim>\<open>away\<close>) field:
  the odds handler puts no \<^verbatim>\<open>?? ""\<close> default on any of its fields (the match search puts
  one on the two fields its filters read), and the field is left out of the JSON sent.
\<close>

theorem odds_missing_competitor:
  assumes "competitors_ok (opt_get summary ''sport_event'')"
  shows "(competitor_with ''home'' (opt_get summary ''sport_event'') = None \<longrightarrow>
            competitor_name ''home'' (opt_get summary ''sport_event'') = Inr JUndefined
            \<and> (\<forall>b. odds_body mid prob summary = Inr b \<longrightarrow> js_get b ''home'' = JUndefined))
       \<and> (competitor_with ''away'' (opt_get summary ''sport_event'') = None \<longrightarrow>
            competitor_name ''away'' (opt_get summary ''sport_event'') = Inr JUndefined
            \<and> (\<forall>b. odds_body mid prob summary = Inr b \<longrightarrow> js_get b ''away'' = JUndefined))"
proof -
  have lookup: "competitor_name q (opt_get summary ''sport_event'') = Inr JUndefined"
    if "competitor_with q (opt_get summary ''sport_event'') = None" for q
    using that by (simp add: competitor_name_ok [OF assms])
  show ?thesis
    using lookup [of "''home''"] lookup [of "''away''"]
    by (auto dest: odds_body_names(1) odds_body_names(2))
qed

theorem odds_missing_competitor_witness:
  "competitors_ok (opt_get sample_summary ''sport_event'')
   \<and> competitor_with ''home'' (opt_get sample_summary ''sport_event'') = None
   \<and> competitor_name ''home'' (opt_get sample_summary ''sport_event'') = Inr JUndefined
   \<and> fst (odds_match sample_rt sample_env (serves_odds sample_probabilities sample_summary)
            False 0 0 ''m1'' empty_state)
       = \<lparr>res_status = 200,
          res_body = JObj
            [(''match_id'', JStr ''m1''),
             (''scheduled'', JStr ''2024-05-01T19:00:00+00:00''),
             (''home'', JUndefined),
             (''away'', JStr ''Betis''),
             (''markets'', JArr
                [JObj [(''key'', JStr ''3way''),
                       (''outcomes'', JArr
                          [JObj [(''label'', JStr ''home_team_winner''), (''probability'', JNum 45.3)],
                           JObj [(''label'', JStr ''draw''), (''probability'', JNum 27.1)]])],
                 JObj [(''key'', JStr ''empty''), (''outcomes'', JArr [])]])]\<rparr>"
proof -
  have shape: "competitors_ok (opt_get sample_summary ''sport_event'')"
    by (simp add: competitors_ok_def opt_get_def sample_summary_def)
  have none: "competitor_with ''home'' (opt_get sample_summary ''sport_event'') = None"
    by (simp add: competitor_with_def competitors_of_def list_of_def opt_get_def
          sample_summary_def)
  have response: "fst (odds_match sample_rt sample_env
                         (serves_odds sample_probabilities sample_summary)
                         False 0 0 ''m1'' empty_state)
       = \<lparr>res_status = 200,
          res_body = JObj
            [(''match_id'', JStr ''m1''),
             (''scheduled'', JStr ''2024-05-01T19:00:00+00:00''),
             (''home'', JUndefined),
             (''away'', JStr ''Betis''),
             (''markets'', JArr
                [JObj [(''key'', JStr ''3way''),
                       (''outcomes'', JArr
                          [JObj [(''label'', JStr ''home_team_winner''), (''probability'', JNum 45.3)],
                           JObj [(''label'', JStr ''draw''), (''probability'', JNum 27.1)]])],
                 JObj [(''key'', JStr ''empty''), (''outcomes'', JArr [])]])]\<rparr>"
    by (simp add: handler_defs fixture_defs url_defs)
  from odds_missing_competitor [OF shape, of "''m1''" sample_probabilities] shape none response
  show ?thesis by simp
qed

text \<open>
  C3 as the claim states it fails on this summary: it has no competitor with the qualifier
  "home", the handler answers with status 200, and the \<^verbatim>\<open>home\<close> field of the body is
  undefined, not the empty string.
\<close>

theorem odds_missing_home_counterexample:
  "competitor_with ''home'' (opt_get sample_summary ''sport_event'') = None
   \<and> res_status
        (fst (odds_match sample_rt sample_env (serves_odds sample_probabilities sample_summary)
                False 0 0 ''m1'' empty_state)) = 200
   \<and> js_get
        (res_body
          (fst (odds_match sample_rt sample_env (serves_odds sample_probabilities sample_summary)
                  False 0 0 ''m1'' empty_state))) ''home'' = JUndefined
   \<and> js_get
        (res_body
          (fst (odds_match sample_rt sample_env (serves_odds sample_probabilities sample_summary)
                  False 0 0 ''m1'' empty_state))) ''home'' \<noteq> JStr ''''"
  by (simp add: handler_defs fixture_defs url_defs competitor_with_def competitors_of_def
        list_of_def)

lemma falsy_list_of: "\<not> truthy v \<Longrightarrow> list_of v = []"
  by (cases v) (simp_all add: list_of_def)






text \<open>
  C4. When at least one of the two calls of the odds handler ends in an error (so in
  particular when one fails and the other succeeds), the response is status 500 with the
  body \<^verbatim>\<open>{error: message}\<close>, the message of a call that failed: the body has that one field,
  nothing of the payload of the call that succeeded.
\<close>

theorem odds_match_fails_whole:
  assumes "getJsonWithCache net now_p (probUrl rt cfg mid) s = (rp, s1)"
      and "getJsonWithCache net now_s (sumUrl rt cfg mid) s1 = (rs, s2)"
      and "isl rp \<or> isl rs"
  shows "\<exists>e. (rp = Inl e \<or> rs = Inl e)
           \<and> odds_match rt cfg net second_first now_p now_s mid s
               = (\<lparr>res_status = 500, res_body = JObj [(''error'', JStr (message rt e))]\<rparr>, s2)"
  using assms
  by (cases rp; cases rs) (auto simp: odds_match_def Promise_all_def server_error_def)

theorem odds_match_fails_whole_witness:
  "fst (odds_match sample_rt sample_env (prob_down sample_summary) False 0 0 ''m1'' empty_state)
     = \<lparr>res_status = 500, res_body = JObj [(''error'', JStr ''fetch failed'')]\<rparr>
   \<and> fst (getJsonWithCache (prob_down sample_summary) 0 (probUrl sample_rt sample_env ''m1'')
            empty_state) = Inl (Rejection ''fetch failed'')
   \<and> fst (getJsonWithCache (prob_down sample_summary) 0 (sumUrl sample_rt sample_env ''m1'')
            (snd (getJsonWithCache (prob_down sample_summary) 0
                    (probUrl sample_rt sample_env ''m1'') empty_state))) = Inr sample_summary"
  using odds_match_fails_whole
    [of "prob_down sample_summary" 0 sample_rt sample_env "''m1''" empty_state
        "Inl (Rejection ''fetch failed'')"
        "snd (getJsonWithCache (prob_down sample_summary) 0 (probUrl sample_rt sample_env ''m1'')
                empty_state)"
        0 "Inr sample_summary"
        "snd (getJsonWithCache (prob_down sample_summary) 0 (sumUrl sample_rt sample_env ''m1'')
                (snd (getJsonWithCache (prob_down sample_summary) 0
                        (probUrl sample_rt sample_env ''m1'') empty_state)))"
        False]
  by (simp add: handler_defs fixture_defs url_defs)

section \<open>The match-search handler\<close>

lemma is_str_not_nullish: "is_str (js_get m field) \<Longrightarrow> \<not> nullish m"
  by (cases m) (simp_all add: is_str_def)

lemma name_includes_total:
  assumes "is_str (js_get m field)"
  shows "name_includes rt field needle m = Inr (contains_ci rt needle (js_get m field))"
proof -
  from assms obtain name where "js_get m field = JStr name"
    by (cases "js_get m field") (simp_all add: is_str_def)
  with is_str_not_nullish [OF assms] show ?thesis
    by (simp add: name_includes_def includes_str_def contains_ci_def)
qed

lemma apply_filter_strings:
  assumes "list_all (\<lambda>m. is_str (js_get m field)) ms"
  shows "apply_filter rt field param ms = Inr (filter (\<lambda>m. passes rt param (js_get m field)) ms)"
proof (cases param)
  case None
  then show ?thesis by (simp add: apply_filter_def passes_def)
next
  case (Some needle)
  have "filter_arr (name_includes rt field needle) ms
          = Inr (filter (\<lambda>m. contains_ci rt needle (js_get m field)) ms)"
    using assms by (intro filter_arr_total name_includes_total) (simp add: list_all_iff)
  with Some show ?thesis by (simp add: apply_filter_def passes_def)
qed

lemma search_body_filters:
  assumes "summaries_of data = Inr ms" and "list_all has_names ms"
    and "kept = filter (\<lambda>m. passes rt (q_away q) (js_get m ''away''))
                  (filter (\<lambda>m. passes rt (q_home q) (js_get m ''home'')) ms)"
  shows "search_body rt date q data =
           Inr (JObj
             [(''date'', JStr date),
              (''count'', JNum (real (length kept))),
              (''matches'', JArr kept)])"
proof -
  from assms(2) have homes: "list_all (\<lambda>m. is_str (js_get m ''home'')) ms"
    by (simp add: list_all_iff has_names_def)
  from assms(2)
  have aways: "list_all (\<lambda>m. is_str (js_get m ''away''))
                 (filter (\<lambda>m. passes rt (q_home q) (js_get m ''home'')) ms)"
    by (simp add: list_all_iff has_names_def)
  show ?thesis
    by (simp add: search_body_def assms(1,3) apply_filter_strings [OF homes]
          apply_filter_strings [OF aways])
qed

text \<open>
  C5. With a date given, the schedule fetched, and the events mapped to summaries whose
  home and away names are strings, the response is status 200 with the body
  \<^verbatim>\<open>{date, count, matches}\<close>, where \<^verbatim>\<open>matches\<close> is what the away filter keeps of what the
  home filter keeps of the summaries and \<^verbatim>\<open>count\<close> is its length. A filter that is given
  keeps exactly the summaries whose name contains the filter text once both are
  lower-cased, one that is not given keeps all; so the summaries kept are exactly those
  that pass both filters, and they stand in the order the events had.
\<close>

theorem search_matches_filters:
  assumes "q_date q = Some date" and "date \<noteq> []"
      and "getJsonWithCache net now (schedulesUrl rt cfg date) s = (Inr data, s')"
      and "summaries_of data = Inr ms"
      and "list_all has_names ms"
      and "kept = filter (\<lambda>m. passes rt (q_away q) (js_get m ''away''))
                    (filter (\<lambda>m. passes rt (q_home q) (js_get m ''home'')) ms)"
  shows "search_matches rt cfg net now q s =
           (\<lparr>res_status = 200,
             res_body = JObj
               [(''date'', JStr date),
                (''count'', JNum (real (length kept))),
                (''matches'', JArr kept)]\<rparr>,
            s')
       \<and> kept = filter (\<lambda>m. passes rt (q_home q) (js_get m ''home'')
                            \<and> passes rt (q_away q) (js_get m ''away'')) ms
       \<and> subseq kept ms"
proof -
  have response: "search_matches rt cfg net now q s =
           (\<lparr>res_status = 200,
             res_body = JObj
               [(''date'', JStr date),
                (''count'', JNum (real (length kept))),
                (''matches'', JArr kept)]\<rparr>,
            s')"
    by (simp add: search_matches_def assms(1,2,3) search_body_filters [OF assms(4,5,6)])
  have both: "kept = filter (\<lambda>m. passes rt (q_home q) (js_get m ''home'')
                                 \<and> passes rt (q_away q) (js_get m ''away'')) ms"
    by (simp add: assms(6) conj_commute)
  have order: "subseq kept ms"
    by (simp add: both)
  from response both order show ?thesis by simp
qed

theorem search_matches_filters_witness:
  "fst (search_matches sample_rt sample_env (serves sample_schedule) 0
          \<lparr>q_date = Some ''2024-05-01'', q_home = Some ''real'', q_away = None\<rparr> empty_state)
   = \<lparr>res_status = 200,
      res_body = JObj
        [(''date'', JStr ''2024-05-01''),
         (''count'', JNum 1),
         (''matches'', JArr
            [JObj [(''match_id'', JStr ''e1''),
                   (''scheduled'', JUndefined),
                   (''league'', JUndefined),
                   (''home'', JStr ''Real Madrid''),
                   (''away'', JStr ''Barcelona'')]])]\<rparr>"
proof -
  let ?q = "\<lparr>q_date = Some ''2024-05-01'', q_home = Some ''real'', q_away = None\<rparr>"
  let ?s' = "snd (getJsonWithCache (serves sample_schedule) 0
                    (schedulesUrl sample_rt sample_env ''2024-05-01'') empty_state)"
  let ?m1 = "JObj [(''match_id'', JStr ''e1''), (''scheduled'', JUndefined),
                   (''league'', JUndefined), (''home'', JStr ''Real Madrid''),
                   (''away'', JStr ''Barcelona'')]"
  let ?m2 = "JObj [(''match_id'', JStr ''e2''), (''scheduled'', JUndefined),
                   (''league'', JUndefined), (''home'', JStr ''Sevilla''),
                   (''away'', JStr ''Betis'')]"
  have fetch: "getJsonWithCache (serves sample_schedule) 0
                 (schedulesUrl sample_rt sample_env ''2024-05-01'') empty_state
               = (Inr sample_schedule, ?s')"
    by (simp add: getJsonWithCache_def fresh_def ok_def serves_def empty_state_def)
  have mapped: "summaries_of sample_schedule = Inr [?m1, ?m2]"
    by (simp add: handler_defs sample_schedule_def)
  have names: "list_all has_names [?m1, ?m2]"
    by (simp add: has_names_def is_str_def)
  have kept: "[?m1] = filter (\<lambda>m. passes sample_rt (q_away ?q) (js_get m ''away''))
                        (filter (\<lambda>m. passes sample_rt (q_home ?q) (js_get m ''home'')) [?m1, ?m2])"
    by (simp add: passes_def contains_ci_def sample_rt_def ascii_toLowerCase_def
          sublist_Cons_right)
  from search_matches_filters [of ?q "''2024-05-01''" "serves sample_schedule" 0 sample_rt
      sample_env empty_state sample_schedule ?s' "[?m1, ?m2]" "[?m1]",
      OF _ _ fetch mapped names kept]
  show ?thesis by simp
qed

lemma or_empty_list_of: "or_empty v = JArr xs \<Longrightarrow> list_of v = xs"
proof (cases "truthy v")
  case True
  then show "or_empty v = JArr xs \<Longrightarrow> list_of v = xs"
    by (simp add: or_empty_def list_of_def)
next
  case False
  then show "or_empty v = JArr xs \<Longrightarrow> list_of v = xs"
    by (auto simp: or_empty_def falsy_list_of)
qed

lemma summaries_of_total:
  assumes "events_ok data"
  shows "summaries_of data =
           Inr (map (\<lambda>ev. JObj
                  [(''match_id'', opt_get ev ''id''),
                   (''scheduled'', opt_get ev ''start_time''),
                   (''league'', opt_get (opt_get ev ''tournament'') ''name''),
                   (''home'', team_name ''home'' ev),
                   (''away'', team_name ''away'' ev)])
                 (list_of (opt_get data ''sport_events'')))"
proof -
  from assms obtain evs
    where evs: "or_empty (opt_get data ''sport_events'') = JArr evs"
      and each: "list_all competitors_ok evs"
    by (cases "or_empty (opt_get data ''sport_events'')") (simp_all add: events_ok_def)
  have "map_arr match_summary evs =
          Inr (map (\<lambda>ev. JObj
                 [(''match_id'', opt_get ev ''id''),
                  (''scheduled'', opt_get ev ''start_time''),
                  (''league'', opt_get (opt_get ev ''tournament'') ''name''),
                  (''home'', team_name ''home'' ev),
                  (''away'', team_name ''away'' ev)]) evs)"
    using each by (intro map_arr_total match_summary_total) (simp add: list_all_iff)
  with evs or_empty_list_of [OF evs] show ?thesis
    by (simp add: summaries_of_def call_map_def)
qed

lemma apply_filter_not_given:
  "param = None \<or> param = Some '''' \<Longrightarrow> apply_filter rt field param ms = Inr ms"
  by (auto simp: apply_filter_def)

text \<open>
  C6. For a schedule whose events list is missing or an array of events, each with
  competitors that are absent, null, or an array with no null entry, the match-search
  handler maps every event, in order, to one MatchSummary and raises no error: the \<^verbatim>\<open>home\<close>
  field of an event's summary is the name of the first competitor entry whose qualifier is
  "home", and the empty string when no entry has that qualifier (or the entry has no
  name); the same holds for \<^verbatim>\<open>away\<close>. With a date given and the schedule fetched, a request
  without filters is answered with status 200 and exactly these summaries under
  \<^verbatim>\<open>matches\<close>, and a request with filters, when all the names are strings, with those of
  these summaries that pass.
\<close>

theorem search_matches_maps_events:
  assumes "events_ok data"
      and "q_date q = Some date" and "date \<noteq> []"
      and "getJsonWithCache net now (schedulesUrl rt cfg date) s = (Inr data, s')"
      and "expected =
             map (\<lambda>ev. JObj
                    [(''match_id'', opt_get ev ''id''),
                     (''scheduled'', opt_get ev ''start_time''),
                     (''league'', opt_get (opt_get ev ''tournament'') ''name''),
                     (''home'', team_name ''home'' ev),
                     (''away'', team_name ''away'' ev)])
               (list_of (opt_get data ''sport_events''))"
  shows "summaries_of data = Inr expected
       \<and> (competitors_ok ev \<longrightarrow>
            match_summary ev =
              Inr (JObj
                [(''match_id'', opt_get ev ''id''),
                 (''scheduled'', opt_get ev ''start_time''),
                 (''league'', opt_get (opt_get ev ''tournament'') ''name''),
                 (''home'', team_name ''home'' ev),
                 (''away'', team_name ''away'' ev)]))
       \<and> (competitor_with ''home'' ev = None \<longrightarrow> team_name ''home'' ev = JStr '''')
       \<and> (competitor_with ''away'' ev = None \<longrightarrow> team_name ''away'' ev = JStr '''')
       \<and> ((q_home q = None \<or> q_home q = Some '''') \<and> (q_away q = None \<or> q_away q = Some '''') \<longrightarrow>
            search_matches rt cfg net now q s =
              (\<lparr>res_status = 200,
                res_body = JObj
                  [(''date'', JStr date),
                   (''count'', JNum (real (length expected))),
                   (''matches'', JArr expected)]\<rparr>,
               s'))
       \<and> (list_all has_names expected \<longrightarrow>
            search_matches rt cfg net now q s =
              (\<lparr>res_status = 200,
                res_body = JObj
                  [(''date'', JStr date),
                   (''count'', JNum (real (length
                      (filter (\<lambda>m. passes rt (q_away q) (js_get m ''away''))
                         (filter (\<lambda>m. passes rt (q_home q) (js_get m ''home'')) expected))))),
                   (''matches'', JArr
                      (filter (\<lambda>m. passes rt (q_away q) (js_get m ''away''))
                         (filter (\<lambda>m. passes rt (q_home q) (js_get m ''home'')) expected)))]\<rparr>,
               s'))"
proof -
  have mapped: "summaries_of data = Inr expected"
    unfolding assms(5) by (rule summaries_of_total [OF assms(1)])
  have one: "match_summary ev =
              Inr (JObj
                [(''match_id'', opt_get ev ''id''),
                 (''scheduled'', opt_get ev ''start_time''),
                 (''league'', opt_get (opt_get ev ''tournament'') ''name''),
                 (''home'', team_name ''home'' ev),
                 (''away'', team_name ''away'' ev)])" if "competitors_ok ev"
    using that by (rule match_summary_total)
  have none: "team_name k ev = JStr ''''" if "competitor_with k ev = None" for k
    using that by (simp add: team_name_def)
  have plain: "search_matches rt cfg net now q s =
              (\<lparr>res_status = 200,
                res_body = JObj
                  [(''date'', JStr date),
                   (''count'', JNum (real (length expected))),
                   (''matches'', JArr expected)]\<rparr>,
               s')"
    if "q_home q = None \<or> q_home q = Some ''''" and "q_away q = None \<or> q_away q = Some ''''"
    by (simp add: search_matches_def assms(2,3,4) search_body_def mapped
          apply_filter_not_given [OF that(1)] apply_filter_not_given [OF that(2)])
  have filtered: "search_matches rt cfg net now q s =
              (\<lparr>res_status = 200,
                res_body = JObj
                  [(''date'', JStr date),
                   (''count'', JNum (real (length
                      (filter (\<lambda>m. passes rt (q_away q) (js_get m ''away''))
                         (filter (\<lambda>m. passes rt (q_home q) (js_get m ''home'')) expected))))),
                   (''matches'', JArr
                      (filter (\<lambda>m. passes rt (q_away q) (js_get m ''away''))
                         (filter (\<lambda>m. passes rt (q_home q) (js_get m ''home'')) expected)))]\<rparr>,
               s')"
    if "list_all has_names expected"
    by (simp add: search_matches_def assms(2,3,4) search_body_filters [OF mapped that refl])
  from mapped one none [of "''home''"] none [of "''away''"] plain filtered show ?thesis
    by blast
qed

theorem search_matches_maps_events_witness:
  "events_ok partial_schedule
   \<and> competitor_with ''home'' away_only_event = None
   \<and> fst (search_matches sample_rt sample_env (serves partial_schedule) 0
            \<lparr>q_date = Some ''2024-05-01'', q_home = None, q_away = None\<rparr> empty_state)
       = \<lparr>res_status = 200,
          res_body = JObj
            [(''date'', JStr ''2024-05-01''),
             (''count'', JNum 3),
             (''matches'', JArr
                [JObj [(''match_id'', JStr ''e1''),
                       (''scheduled'', JStr ''2024-05-01T19:00:00+00:00''),
                       (''league'', JStr ''LaLiga''),
                       (''home'', JStr ''Real Madrid''),
                       (''away'', JStr ''Barcelona'')],
                 JObj [(''match_id'', JStr ''e3''),
                       (''scheduled'', JUndefined),
                       (''league'', JUndefined),
                       (''home'', JStr ''''),
                       (''away'', JStr ''Betis'')],
                 JObj [(''match_id'', JUndefined),
                       (''scheduled'', JUndefined),
                       (''league'', JUndefined),
                       (''home'', JStr ''''),
                       (''away'', JStr '''')]])]\<rparr>"
proof -
  let ?q = "\<lparr>q_date = Some ''2024-05-01'', q_home = None, q_away = None\<rparr>"
  let ?s' = "snd (getJsonWithCache (serves partial_schedule) 0
                    (schedulesUrl sample_rt sample_env ''2024-05-01'') empty_state)"
  have shape: "events_ok partial_schedule"
    by (simp add: events_ok_def competitors_ok_def or_empty_def opt_get_def
          partial_schedule_def away_only_event_def)
  have none: "competitor_with ''home'' away_only_event = None"
    by (simp add: competitor_with_def competitors_of_def list_of_def opt_get_def
          away_only_event_def)
  have fetch: "getJsonWithCache (serves partial_schedule) 0
                 (schedulesUrl sample_rt sample_env ''2024-05-01'') empty_state
               = (Inr partial_schedule, ?s')"
    by (simp add: getJsonWithCache_def fresh_def ok_def serves_def empty_state_def)
  have date: "q_date ?q = Some ''2024-05-01''" and given: "''2024-05-01'' \<noteq> []"
    by simp_all
  from search_matches_maps_events [where ev = away_only_event, OF shape date given fetch refl]
       shape none
  show ?thesis
    by (simp add: team_name_def competitor_with_def competitors_of_def list_of_def opt_get_def
          nullish_coalesce_def partial_schedule_def away_only_event_def)
qed

text \<open>
  C8. Without a \<^verbatim>\<open>date\<close> parameter the response is status 400 with the body
  \<^verbatim>\<open>{error: "Falta ?date=YYYY-MM-DD"}\<close>, and the state is the one the handler started from:
  nothing was fetched, nothing was cached.
\<close>

theorem search_matches_no_date:
  assumes "q_date q = None"
  shows "search_matches rt cfg net now q s =
           (\<lparr>res_status = 400, res_body = JObj [(''error'', JStr ''Falta ?date=YYYY-MM-DD'')]\<rparr>, s)"
  using assms by (simp add: search_matches_def bad_request_def)

theorem search_matches_no_date_witness:
  "search_matches sample_rt sample_env (serves sample_schedule) 0
     \<lparr>q_date = None, q_home = Some ''real'', q_away = None\<rparr> \<lparr>CACHE = Map.empty, fetched = []\<rparr>
   = (\<lparr>res_status = 400, res_body = JObj [(''error'', JStr ''Falta ?date=YYYY-MM-DD'')]\<rparr>,
      \<lparr>CACHE = Map.empty, fetched = []\<rparr>)"
  using search_matches_no_date
    [of "\<lparr>q_date = None, q_home = Some ''real'', q_away = None\<rparr>" sample_rt sample_env
        "serves sample_schedule" 0 "\<lparr>CACHE = Map.empty, fetched = []\<rparr>"]
  by simp

text \<open>
  C10. A \<^verbatim>\<open>home\<close> parameter that is present and empty gives the response and the state that
  an absent one gives, whatever the upstream answers: the filtering step is not run. The
  same holds for \<^verbatim>\<open>away\<close>.
\<close>

theorem search_matches_empty_filter:
  "search_matches rt cfg net now (q\<lparr>q_home := Some ''''\<rparr>) s
     = search_matches rt cfg net now (q\<lparr>q_home := None\<rparr>) s
   \<and> search_matches rt cfg net now (q\<lparr>q_away := Some ''''\<rparr>) s
     = search_matches rt cfg net now (q\<lparr>q_away := None\<rparr>) s"
proof -
  have "search_body rt date (q\<lparr>q_home := Some ''''\<rparr>) data
          = search_body rt date (q\<lparr>q_home := None\<rparr>) data"
    and "search_body rt date (q\<lparr>q_away := Some ''''\<rparr>) data
          = search_body rt date (q\<lparr>q_away := None\<rparr>) data" for date data
    by (simp_all add: search_body_def apply_filter_def cong: sum.case_cong)
  then show ?thesis
    by (simp add: search_matches_def Let_def split: option.splits prod.splits sum.splits)
qed

theorem search_matches_empty_filter_witness:
  "fst (search_matches sample_rt sample_env (serves numbered_schedule) 0
          \<lparr>q_date = Some ''2024-05-01'', q_home = Some '''', q_away = None\<rparr> empty_state)
   = \<lparr>res_status = 200,
      res_body = JObj
        [(''date'', JStr ''2024-05-01''),
         (''count'', JNum 1),
         (''matches'', JArr
            [JObj [(''match_id'', JStr ''e7''),
                   (''scheduled'', JUndefined),
                   (''league'', JUndefined),
                   (''home'', JNum 7),
                   (''away'', JStr ''Betis'')]])]\<rparr>
   \<and> fst (search_matches sample_rt sample_env (serves numbered_schedule) 0
          \<lparr>q_date = Some ''2024-05-01'', q_home = Some ''a'', q_away = None\<rparr> empty_state)
   = \<lparr>res_status = 500, res_body = JObj [(''error'', JStr ''TypeError'')]\<rparr>"
proof -
  have absent: "fst (search_matches sample_rt sample_env (serves numbered_schedule) 0
          \<lparr>q_date = Some ''2024-05-01'', q_home = None, q_away = None\<rparr> empty_state)
   = \<lparr>res_status = 200,
      res_body = JObj
        [(''date'', JStr ''2024-05-01''),
         (''count'', JNum 1),
         (''matches'', JArr
            [JObj [(''match_id'', JStr ''e7''),
                   (''scheduled'', JUndefined),
                   (''league'', JUndefined),
                   (''home'', JNum 7),
                   (''away'', JStr ''Betis'')]])]\<rparr>"
    by (simp add: handler_defs fixture_defs url_defs Let_def)
  have given: "fst (search_matches sample_rt sample_env (serves numbered_schedule) 0
          \<lparr>q_date = Some ''2024-05-01'', q_home = Some ''a'', q_away = None\<rparr> empty_state)
   = \<lparr>res_status = 500, res_body = JObj [(''error'', JStr ''TypeError'')]\<rparr>"
    by (simp add: handler_defs fixture_defs url_defs Let_def)
  from search_matches_empty_filter
    [of sample_rt sample_env "serves numbered_schedule" 0
        "\<lparr>q_date = Some ''2024-05-01'', q_home = None, q_away = None\<rparr>" empty_state]
    absent given
  show ?thesis by simp
qed

section \<open>Upstream data of another shape\<close>

text \<open>
  Outside the shapes assumed above the handlers end in the \<^verbatim>\<open>catch\<close>: a null entry in a
  competitors or markets array, or a competitors value that is not an array, makes the
  lookup a \<^verbatim>\<open>TypeError\<close>, which the handler reports with status 500.
\<close>

lemma match_summary_null_entry:
  "match_summary (JObj [(''competitors'', JArr [JNull])])
     = Inl (TypeError (CannotReadProperty JNull ''qualifier''))"
  by (simp add: match_summary_def competitor_name_def call_find_def has_qualifier_def
        opt_get_def)

lemma match_summary_not_array:
  "match_summary (JObj [(''competitors'', JStr ''none'')]) = Inl (TypeError (NotAFunction ''find''))"
  by (simp add: match_summary_def competitor_name_def call_find_def opt_get_def)

lemma markets_of_null_entry:
  "markets_of (JObj [(''probabilities'', JObj [(''markets'', JArr [JNull])])])
     = Inl (TypeError (CannotReadProperty JNull ''name''))"
  by (simp add: markets_of_def market_entry_def call_map_def or_empty_def opt_get_def)

lemma search_matches_empty_date:
  "q_date q = Some '''' \<Longrightarrow> search_matches rt cfg net now q s = (bad_request, s)"
  by (simp add: search_matches_def)

end
